theory Spec2Isabelle
  imports Main
begin

section \<open>Strings and exceptions\<close>

text \<open>
  A Python \<open>str\<close> is a sequence of Unicode code points. A code point is an integer
  (from 0 to \<open>0x10FFFF\<close>) and a string is the list of its code points, so that
  \<^const>\<open>length\<close> counts what \<open>len\<close> counts. \<open>cp\<close> is the code point of a character of
  the source text and \<open>py\<close> the string of a literal of the source text.

  Every exception the program can raise is a \<open>ValueError\<close>; \<open>str(e)\<close> is its message.
\<close>

type_synonym pystr = "int list"

definition cp :: "char \<Rightarrow> int" where
  "cp c = of_char c"

definition py :: "string \<Rightarrow> pystr" where
  "py s = map cp s"

datatype exn = ValueError pystr

fun str_exn :: "exn \<Rightarrow> pystr" where
  "str_exn (ValueError m) = m"

definition is_char :: "char \<Rightarrow> int \<Rightarrow> bool" where
  \<comment> \<open>a literal character of a regular expression\<close>
  "is_char ch c = (c = cp ch)"

definition in_range :: "char \<Rightarrow> char \<Rightarrow> int \<Rightarrow> bool" where
  \<comment> \<open>the character class \<open>[lo-hi]\<close> of a regular expression\<close>
  "in_range lo hi c = (cp lo \<le> c \<and> c \<le> cp hi)"

definition is_ascii_digit :: "int \<Rightarrow> bool" where
  "is_ascii_digit c = in_range CHR ''0'' CHR ''9'' c"

text \<open>
  The digits of the Unicode character database, version 14.0.0 (the one CPython 3.11
  carries). \<open>decimal_ranges\<close> are the code points of Numeric_Type Decimal, which are
  those of category Nd: each range is made of runs of ten digits with the values 0 to 9 in
  order. \<open>other_digit_ranges\<close> are the code points of Numeric_Type Digit, such as the
  superscript and the circled digits.
\<close>

definition decimal_ranges :: "(int \<times> int) list" where
  "decimal_ranges =
     [(0x30, 0x39), (0x660, 0x669), (0x6F0, 0x6F9), (0x7C0, 0x7C9), (0x966, 0x96F),
      (0x9E6, 0x9EF), (0xA66, 0xA6F), (0xAE6, 0xAEF), (0xB66, 0xB6F), (0xBE6, 0xBEF),
      (0xC66, 0xC6F), (0xCE6, 0xCEF), (0xD66, 0xD6F), (0xDE6, 0xDEF), (0xE50, 0xE59),
      (0xED0, 0xED9), (0xF20, 0xF29), (0x1040, 0x1049), (0x1090, 0x1099), (0x17E0, 0x17E9),
      (0x1810, 0x1819), (0x1946, 0x194F), (0x19D0, 0x19D9), (0x1A80, 0x1A89), (0x1A90, 0x1A99),
      (0x1B50, 0x1B59), (0x1BB0, 0x1BB9), (0x1C40, 0x1C49), (0x1C50, 0x1C59), (0xA620, 0xA629),
      (0xA8D0, 0xA8D9), (0xA900, 0xA909), (0xA9D0, 0xA9D9), (0xA9F0, 0xA9F9), (0xAA50, 0xAA59),
      (0xABF0, 0xABF9), (0xFF10, 0xFF19), (0x104A0, 0x104A9), (0x10D30, 0x10D39),
      (0x11066, 0x1106F), (0x110F0, 0x110F9), (0x11136, 0x1113F), (0x111D0, 0x111D9),
      (0x112F0, 0x112F9), (0x11450, 0x11459), (0x114D0, 0x114D9), (0x11650, 0x11659),
      (0x116C0, 0x116C9), (0x11730, 0x11739), (0x118E0, 0x118E9), (0x11950, 0x11959),
      (0x11C50, 0x11C59), (0x11D50, 0x11D59), (0x11DA0, 0x11DA9), (0x16A60, 0x16A69),
      (0x16AC0, 0x16AC9), (0x16B50, 0x16B59), (0x1D7CE, 0x1D7FF), (0x1E140, 0x1E149),
      (0x1E2F0, 0x1E2F9), (0x1E950, 0x1E959), (0x1FBF0, 0x1FBF9)]"

definition other_digit_ranges :: "(int \<times> int) list" where
  "other_digit_ranges =
     [(0xB2, 0xB3), (0xB9, 0xB9), (0x1369, 0x1371), (0x19DA, 0x19DA), (0x2070, 0x2070),
      (0x2074, 0x2079), (0x2080, 0x2089), (0x2460, 0x2468), (0x2474, 0x247C), (0x2488, 0x2490),
      (0x24EA, 0x24EA), (0x24F5, 0x24FD), (0x24FF, 0x24FF), (0x2776, 0x277E), (0x2780, 0x2788),
      (0x278A, 0x2792), (0x10A40, 0x10A43), (0x10E60, 0x10E68), (0x11052, 0x1105A),
      (0x1F100, 0x1F10A)]"

definition in_ranges :: "(int \<times> int) list \<Rightarrow> int \<Rightarrow> bool" where
  "in_ranges rs c = list_ex (\<lambda>(lo, hi). lo \<le> c \<and> c \<le> hi) rs"

definition isdecimal_char :: "int \<Rightarrow> bool" where
  \<comment> \<open>\<open>str.isdecimal\<close> on one code point, and the class \<open>\d\<close> of a regular expression
      over \<open>str\<close>\<close>
  "isdecimal_char c = in_ranges decimal_ranges c"

definition isdigit_char :: "int \<Rightarrow> bool" where
  \<comment> \<open>\<open>str.isdigit\<close> on one code point: Numeric_Type Decimal or Digit\<close>
  "isdigit_char c = (isdecimal_char c \<or> in_ranges other_digit_ranges c)"

definition isdigit :: "pystr \<Rightarrow> bool" where
  \<comment> \<open>\<open>str.isdigit\<close>: every character is a digit and there is at least one\<close>
  "isdigit s = (s \<noteq> [] \<and> list_all isdigit_char s)"

definition decimal_val :: "int \<Rightarrow> int" where
  \<comment> \<open>the value \<open>int\<close> gives a decimal digit: its place in its run of ten\<close>
  "decimal_val c =
     (case find (\<lambda>(lo, hi). lo \<le> c \<and> c \<le> hi) decimal_ranges of
        Some (lo, hi) \<Rightarrow> (c - lo) mod 10
      | None \<Rightarrow> 0)"

section \<open>The datetime library, as far as the program uses it\<close>

text \<open>
  Dates are those of the proleptic Gregorian calendar, years 1 to 9999. A \<open>datetime\<close>
  carries the time of day down to the microsecond; none here has a time zone. The texts of
  the library's own error messages differ between versions of the interpreter; the program
  shows them only where a handler prints what the query or an unpacking raised.
\<close>

record datetime =
  year :: int
  month :: int
  day :: int
  hour :: int
  minute :: int
  second :: int
  microsecond :: int

record timedelta =
  days :: int
  seconds :: int
  microseconds :: int

definition is_leap :: "int \<Rightarrow> bool" where
  "is_leap y = (y mod 4 = 0 \<and> (y mod 100 \<noteq> 0 \<or> y mod 400 = 0))"

definition days_in_month :: "int \<Rightarrow> int \<Rightarrow> int" where
  "days_in_month y m =
     (if m = 2 then (if is_leap y then 29 else 28)
      else if m = 4 \<or> m = 6 \<or> m = 9 \<or> m = 11 then 30 else 31)"

definition days_before_year :: "int \<Rightarrow> int" where
  "days_before_year y = (y - 1) * 365 + (y - 1) div 4 - (y - 1) div 100 + (y - 1) div 400"

definition days_before_month :: "int \<Rightarrow> int \<Rightarrow> int" where
  "days_before_month y m =
     [0, 31, 59, 90, 120, 151, 181, 212, 243, 273, 304, 334] ! nat (m - 1)
       + (if m > 2 \<and> is_leap y then 1 else 0)"

definition toordinal :: "datetime \<Rightarrow> int" where
  "toordinal d = days_before_year (year d) + days_before_month (year d) (month d) + day d"

definition datetime_new ::
  "int \<Rightarrow> int \<Rightarrow> int \<Rightarrow> int \<Rightarrow> int \<Rightarrow> int \<Rightarrow> int \<Rightarrow> exn + datetime" where
  \<comment> \<open>the constructor \<open>datetime(year, month, day, hour, minute, second, microsecond)\<close>
      with its range checks, in the library's order\<close>
  "datetime_new y m d hh mm ss us =
     (if \<not> (1 \<le> y \<and> y \<le> 9999) then Inl (ValueError (py ''year is out of range''))
      else if \<not> (1 \<le> m \<and> m \<le> 12) then Inl (ValueError (py ''month must be in 1..12''))
      else if \<not> (1 \<le> d \<and> d \<le> days_in_month y m)
        then Inl (ValueError (py ''day is out of range for month''))
      else if \<not> (0 \<le> hh \<and> hh \<le> 23) then Inl (ValueError (py ''hour must be in 0..23''))
      else if \<not> (0 \<le> mm \<and> mm \<le> 59) then Inl (ValueError (py ''minute must be in 0..59''))
      else if \<not> (0 \<le> ss \<and> ss \<le> 59) then Inl (ValueError (py ''second must be in 0..59''))
      else if \<not> (0 \<le> us \<and> us \<le> 999999)
        then Inl (ValueError (py ''microsecond must be in 0..999999''))
      else Inr \<lparr>year = y, month = m, day = d, hour = hh, minute = mm, second = ss,
                microsecond = us\<rparr>)"

definition valid_datetime :: "datetime \<Rightarrow> bool" where
  \<comment> \<open>what every datetime object satisfies: the constructor accepted its fields\<close>
  "valid_datetime d =
     (1 \<le> year d \<and> year d \<le> 9999 \<and> 1 \<le> month d \<and> month d \<le> 12 \<and>
      1 \<le> day d \<and> day d \<le> days_in_month (year d) (month d) \<and>
      0 \<le> hour d \<and> hour d \<le> 23 \<and> 0 \<le> minute d \<and> minute d \<le> 59 \<and>
      0 \<le> second d \<and> second d \<le> 59 \<and> 0 \<le> microsecond d \<and> microsecond d \<le> 999999)"

definition replace_year :: "datetime \<Rightarrow> int \<Rightarrow> exn + datetime" where
  \<comment> \<open>\<open>d.replace(year=y)\<close>: a new datetime from the fields, checked again\<close>
  "replace_year d y =
     datetime_new y (month d) (day d) (hour d) (minute d) (second d) (microsecond d)"

definition timedelta_new :: "int \<Rightarrow> int \<Rightarrow> int \<Rightarrow> timedelta" where
  \<comment> \<open>\<open>timedelta(days, seconds, microseconds)\<close>, normalised so that
      \<open>0 \<le> seconds < 86400\<close> and \<open>0 \<le> microseconds < 1000000\<close>; \<open>days\<close> takes the floor\<close>
  "timedelta_new d s us =
     (let total = (d * 86400 + s) * 1000000 + us in
      \<lparr>days = total div 86400000000,
       seconds = (total mod 86400000000) div 1000000,
       microseconds = total mod 1000000\<rparr>)"

definition datetime_sub :: "datetime \<Rightarrow> datetime \<Rightarrow> timedelta" where
  \<comment> \<open>\<open>a - b\<close> on two naive datetimes\<close>
  "datetime_sub a b =
     timedelta_new (toordinal a - toordinal b)
       ((second a + minute a * 60 + hour a * 3600) - (second b + minute b * 60 + hour b * 3600))
       (microsecond a - microsecond b)"

subsection \<open>\<open>strptime\<close> with the format \<open>%d.%m.%Y\<close>\<close>

text \<open>
  The library turns the format into the regular expression
  \<^verbatim>\<open>(?P<d>3[0-1]|[1-2]\d|0[1-9]|[1-9]| [1-9])\.(?P<m>1[0-2]|0[1-9]|[1-9])\.(?P<Y>\d\d\d\d)\<close>,
  matches it at the start of the input, refuses input left over after the match, converts
  the three groups with \<open>int\<close> and builds the date, which checks the ranges. A matcher
  returns every way of matching a prefix, in the order a backtracking matcher tries them;
  the head of the list is the match the library sees.
\<close>

fun classes :: "(int \<Rightarrow> bool) list \<Rightarrow> pystr \<Rightarrow> (pystr \<times> pystr) list" where
  "classes [] s = [([], s)]"
| "classes (p # ps) [] = []"
| "classes (p # ps) (c # s) =
     (if p c then map (\<lambda>(m, r). (c # m, r)) (classes ps s) else [])"

definition rx_d :: "pystr \<Rightarrow> (pystr \<times> pystr) list" where
  "rx_d s =
     classes [is_char CHR ''3'', in_range CHR ''0'' CHR ''1''] s @
     classes [in_range CHR ''1'' CHR ''2'', isdecimal_char] s @
     classes [is_char CHR ''0'', in_range CHR ''1'' CHR ''9''] s @
     classes [in_range CHR ''1'' CHR ''9''] s @
     classes [is_char CHR '' '', in_range CHR ''1'' CHR ''9''] s"

definition rx_m :: "pystr \<Rightarrow> (pystr \<times> pystr) list" where
  "rx_m s =
     classes [is_char CHR ''1'', in_range CHR ''0'' CHR ''2''] s @
     classes [is_char CHR ''0'', in_range CHR ''1'' CHR ''9''] s @
     classes [in_range CHR ''1'' CHR ''9''] s"

definition rx_Y :: "pystr \<Rightarrow> (pystr \<times> pystr) list" where
  "rx_Y s = classes [isdecimal_char, isdecimal_char, isdecimal_char, isdecimal_char] s"

definition rx_dot :: "pystr \<Rightarrow> (pystr \<times> pystr) list" where
  "rx_dot s = classes [is_char CHR ''.''] s"

definition strptime_matches :: "pystr \<Rightarrow> ((pystr \<times> pystr \<times> pystr) \<times> pystr) list" where
  "strptime_matches s =
     concat (map (\<lambda>(d, r1).
       concat (map (\<lambda>(_, r2).
         concat (map (\<lambda>(m, r3).
           concat (map (\<lambda>(_, r4).
             map (\<lambda>(y, r5). ((d, m, y), r5)) (rx_Y r4))
           (rx_dot r3)))
         (rx_m r2)))
       (rx_dot r1)))
     (rx_d s))"

definition int_of_str :: "pystr \<Rightarrow> int" where
  \<comment> \<open>\<open>int(s)\<close> on a matched group: leading blanks are skipped, the rest are decimal
      digits\<close>
  "int_of_str s = foldl (\<lambda>a c. 10 * a + decimal_val c) 0 (dropWhile (is_char CHR '' '') s)"

definition strptime :: "pystr \<Rightarrow> exn + datetime" where
  \<comment> \<open>\<open>datetime.strptime(s, "%d.%m.%Y")\<close>; the two messages of the library quote the
      input, which the only caller discards\<close>
  "strptime s =
     (case strptime_matches s of
        [] \<Rightarrow> Inl (ValueError (py ''time data does not match format''))
      | ((d, m, y), rest) # _ \<Rightarrow>
          if rest \<noteq> [] then Inl (ValueError (py ''unconverted data remains''))
          else datetime_new (int_of_str y) (int_of_str m) (int_of_str d) 0 0 0 0)"

subsection \<open>\<open>strftime\<close> with the format \<open>%d.%m.%Y\<close>\<close>

text \<open>
  \<open>%d\<close> and \<open>%m\<close> print two digits. \<open>%Y\<close> is left to the C library of the platform;
  the GNU C library, which is modelled here, prints the year as a decimal number without
  padding, so a year below 1000 comes out with fewer than four digits.
\<close>

definition digit_char :: "int \<Rightarrow> int" where
  "digit_char n = cp CHR ''0'' + n"

definition pad2 :: "int \<Rightarrow> pystr" where
  "pad2 n = [digit_char (n div 10 mod 10), digit_char (n mod 10)]"

function decimal_str :: "int \<Rightarrow> pystr" where
  "decimal_str n =
     (if n < 10 then [digit_char n]
      else decimal_str (n div 10) @ [digit_char (n mod 10)])"
  by pat_completeness auto
termination
  by (relation "measure nat") auto

declare decimal_str.simps [simp del]

definition strftime :: "datetime \<Rightarrow> pystr" where
  \<comment> \<open>\<open>d.strftime("%d.%m.%Y")\<close>\<close>
  "strftime d = pad2 (day d) @ py ''.'' @ pad2 (month d) @ py ''.'' @ decimal_str (year d)"

section \<open>The fields: \<open>Name\<close>, \<open>Phone\<close>, \<open>Birthday\<close>\<close>

datatype Name = MkName (Name_value: pystr)

datatype Phone = MkPhone (Phone_value: pystr)

datatype Birthday = MkBirthday (Birthday_value: datetime)

definition Name_init :: "pystr \<Rightarrow> Name" where
  "Name_init v = MkName v"

definition Phone_init :: "pystr \<Rightarrow> exn + Phone" where
  "Phone_init v =
     (if \<not> isdigit v \<or> length v \<noteq> 10 then Inl (ValueError (py ''Phone number must be 10 digits.''))
      else Inr (MkPhone v))"

definition Birthday_init :: "pystr \<Rightarrow> exn + Birthday" where
  "Birthday_init v =
     (case strptime v of
        Inl _ \<Rightarrow> Inl (ValueError (py ''Invalid date format. Use DD.MM.YYYY''))
      | Inr d \<Rightarrow> Inr (MkBirthday d))"

section \<open>\<open>Record\<close>\<close>

text \<open>
  A method that mutates its object takes the object and returns what it raised or returned
  together with the object as the call leaves it.
\<close>

record Record =
  name :: Name
  phones :: "Phone list"
  birthday :: "Birthday option"

definition Record_init :: "pystr \<Rightarrow> Record" where
  "Record_init n = \<lparr>name = Name_init n, phones = [], birthday = None\<rparr>"

definition Record_add_phone :: "pystr \<Rightarrow> Record \<Rightarrow> (exn + unit) \<times> Record" where
  "Record_add_phone phone r =
     (case Phone_init phone of
        Inl e \<Rightarrow> (Inl e, r)
      | Inr p \<Rightarrow> (Inr (), r\<lparr>phones := phones r @ [p]\<rparr>))"

definition Record_add_birthday :: "pystr \<Rightarrow> Record \<Rightarrow> (exn + unit) \<times> Record" where
  "Record_add_birthday b r =
     (case Birthday_init b of
        Inl e \<Rightarrow> (Inl e, r)
      | Inr v \<Rightarrow> (Inr (), r\<lparr>birthday := Some v\<rparr>))"

definition Record_show_birthday :: "Record \<Rightarrow> pystr" where
  "Record_show_birthday r =
     (case birthday r of
        Some b \<Rightarrow> strftime (Birthday_value b)
      | None \<Rightarrow> (py ''No birthday set.''))"

section \<open>\<open>AddressBook\<close>\<close>

text \<open>
  The dictionary \<open>records\<close> is an association list in insertion order: assigning to a key
  that is present replaces its value in place, assigning to a new key appends an entry.
\<close>

record AddressBook =
  records :: "(pystr \<times> Record) list"

definition AddressBook_init :: AddressBook where
  "AddressBook_init = \<lparr>records = []\<rparr>"

fun dict_set :: "pystr \<Rightarrow> Record \<Rightarrow> (pystr \<times> Record) list \<Rightarrow> (pystr \<times> Record) list" where
  "dict_set k v [] = [(k, v)]"
| "dict_set k v ((k', v') # kvs) =
     (if k' = k then (k, v) # kvs else (k', v') # dict_set k v kvs)"

fun dict_get :: "pystr \<Rightarrow> (pystr \<times> Record) list \<Rightarrow> Record option" where
  "dict_get k [] = None"
| "dict_get k ((k', v') # kvs) = (if k' = k then Some v' else dict_get k kvs)"

definition AddressBook_add_record :: "Record \<Rightarrow> AddressBook \<Rightarrow> AddressBook" where
  "AddressBook_add_record r book =
     book\<lparr>records := dict_set (Name_value (name r)) r (records book)\<rparr>"

definition AddressBook_find :: "pystr \<Rightarrow> AddressBook \<Rightarrow> Record option" where
  "AddressBook_find n book = dict_get n (records book)"

fun upcoming_loop ::
  "datetime \<Rightarrow> (pystr \<times> Record) list \<Rightarrow> pystr list \<Rightarrow> exn + pystr list" where
  "upcoming_loop today [] upcoming_birthdays = Inr upcoming_birthdays"
| "upcoming_loop today ((k, r) # rest) upcoming_birthdays =
     (case birthday r of
        None \<Rightarrow> upcoming_loop today rest upcoming_birthdays
      | Some b \<Rightarrow>
          (case replace_year (Birthday_value b) (year today) of
             Inl e \<Rightarrow> Inl e
           | Inr birthday_this_year \<Rightarrow>
               if 0 \<le> days (datetime_sub birthday_this_year today) \<and>
                  days (datetime_sub birthday_this_year today) < 7
               then upcoming_loop today rest (upcoming_birthdays @ [Name_value (name r)])
               else upcoming_loop today rest upcoming_birthdays))"

definition AddressBook_get_upcoming_birthdays ::
  "datetime \<Rightarrow> AddressBook \<Rightarrow> exn + pystr list" where
  \<comment> \<open>the first argument is what \<open>datetime.today()\<close> returns: the date and the time of day\<close>
  "AddressBook_get_upcoming_birthdays today book = upcoming_loop today (records book) []"

section \<open>The command handlers\<close>

text \<open>
  A handler works on the record object it found in the book, so what it does to the record
  shows in the book: \<open>mutate k r\<close> writes the object found under key \<open>k\<close> back as \<open>r\<close>.
  Every object is held once, under one key.
\<close>

definition mutate :: "pystr \<Rightarrow> Record \<Rightarrow> AddressBook \<Rightarrow> AddressBook" where
  "mutate k r book =
     book\<lparr>records := map (\<lambda>(k', r'). if k' = k then (k', r) else (k', r')) (records book)\<rparr>"

definition input_error :: "(exn + pystr) \<times> AddressBook \<Rightarrow> pystr \<times> AddressBook" where
  \<comment> \<open>the decorator: an exception of the handler becomes its message\<close>
  "input_error out = (case out of (Inl e, book) \<Rightarrow> (str_exn e, book) | (Inr m, book) \<Rightarrow> (m, book))"

definition add_contact_body :: "pystr list \<Rightarrow> AddressBook \<Rightarrow> (exn + pystr) \<times> AddressBook" where
  "add_contact_body args book =
     (case args of
        [] \<Rightarrow> (Inl (ValueError (py ''not enough values to unpack (expected at least 2, got 0)'')), book)
      | [_] \<Rightarrow> (Inl (ValueError (py ''not enough values to unpack (expected at least 2, got 1)'')), book)
      | n # phone # _ \<Rightarrow>
          (let (record, message, book1) =
                 (case AddressBook_find n book of
                    None \<Rightarrow> (Record_init n, (py ''Contact added.''),
                              AddressBook_add_record (Record_init n) book)
                  | Some r \<Rightarrow> (r, (py ''Contact updated.''), book))
           in if phone \<noteq> [] then
                (case Record_add_phone phone record of
                   (Inl e, record') \<Rightarrow> (Inl e, mutate n record' book1)
                 | (Inr _, record') \<Rightarrow> (Inr message, mutate n record' book1))
              else (Inr message, book1)))"

definition add_contact :: "pystr list \<Rightarrow> AddressBook \<Rightarrow> pystr \<times> AddressBook" where
  "add_contact args book = input_error (add_contact_body args book)"

fun first_with_value :: "pystr \<Rightarrow> Phone list \<Rightarrow> Phone option" where
  \<comment> \<open>the loop \<open>for phone in record.phones: if phone.value == old_phone\<close>, up to its first hit\<close>
  "first_with_value old_phone [] = None"
| "first_with_value old_phone (phone # rest) =
     (if Phone_value phone = old_phone then Some phone else first_with_value old_phone rest)"

definition change_phone_body :: "pystr list \<Rightarrow> AddressBook \<Rightarrow> (exn + pystr) \<times> AddressBook" where
  "change_phone_body args book =
     (case args of
        [n, old_phone, new_phone] \<Rightarrow>
          (case AddressBook_find n book of
             None \<Rightarrow> (Inr (py ''Contact not found.''), book)
           | Some record \<Rightarrow>
               (case first_with_value old_phone (phones record) of
                  None \<Rightarrow> (Inr (py ''Old phone number not found.''), book)
                | Some phone \<Rightarrow>
                    (case Record_add_phone new_phone
                            (record\<lparr>phones := remove1 phone (phones record)\<rparr>) of
                       (Inl e, record') \<Rightarrow> (Inl e, mutate n record' book)
                     | (Inr _, record') \<Rightarrow> (Inr (py ''Phone number updated.''), mutate n record' book))))
      | _ \<Rightarrow>
          (if length args < 3
           then (Inl (ValueError ((py ''not enough values to unpack (expected 3, got '') @
                        [digit_char (int (length args))] @ (py '')''))), book)
           else (Inl (ValueError (py ''too many values to unpack (expected 3)'')), book)))"

definition change_phone :: "pystr list \<Rightarrow> AddressBook \<Rightarrow> pystr \<times> AddressBook" where
  "change_phone args book = input_error (change_phone_body args book)"

definition add_birthday_body :: "pystr list \<Rightarrow> AddressBook \<Rightarrow> (exn + pystr) \<times> AddressBook" where
  "add_birthday_body args book =
     (case args of
        [n, b] \<Rightarrow>
          (case AddressBook_find n book of
             Some record \<Rightarrow>
               (case Record_add_birthday b record of
                  (Inl e, record') \<Rightarrow> (Inl e, mutate n record' book)
                | (Inr _, record') \<Rightarrow> (Inr (py ''Birthday added.''), mutate n record' book))
           | None \<Rightarrow> (Inr (py ''Contact not found.''), book))
      | _ \<Rightarrow>
          (if length args < 2
           then (Inl (ValueError ((py ''not enough values to unpack (expected 2, got '') @
                        [digit_char (int (length args))] @ (py '')''))), book)
           else (Inl (ValueError (py ''too many values to unpack (expected 2)'')), book)))"

definition add_birthday :: "pystr list \<Rightarrow> AddressBook \<Rightarrow> pystr \<times> AddressBook" where
  "add_birthday args book = input_error (add_birthday_body args book)"

definition birthdays :: "datetime \<Rightarrow> pystr list \<Rightarrow> AddressBook \<Rightarrow> pystr + pystr list" where
  \<comment> \<open>the handler returns the list of names, or the message of what the query raised\<close>
  "birthdays today args book =
     (case AddressBook_get_upcoming_birthdays today book of
        Inl e \<Rightarrow> Inl (str_exn e)
      | Inr names \<Rightarrow> Inr names)"

section \<open>Invariants and derived notions\<close>

definition keyed_by_name :: "AddressBook \<Rightarrow> bool" where
  \<comment> \<open>what the dictionary guarantees (one entry per key) and what \<open>add_record\<close> guarantees
      (the key is the record's own name)\<close>
  "keyed_by_name book =
     (distinct (map fst (records book)) \<and>
      list_all (\<lambda>(k, r). Name_value (name r) = k) (records book))"

definition time_of_day :: "datetime \<Rightarrow> int" where
  \<comment> \<open>microseconds since midnight\<close>
  "time_of_day d = (second d + minute d * 60 + hour d * 3600) * 1000000 + microsecond d"

definition midnight :: "int \<Rightarrow> int \<Rightarrow> int \<Rightarrow> datetime" where
  "midnight y m d =
     \<lparr>year = y, month = m, day = d, hour = 0, minute = 0, second = 0, microsecond = 0\<rparr>"

definition contact :: "pystr \<Rightarrow> pystr list \<Rightarrow> datetime option \<Rightarrow> pystr \<times> Record" where
  \<comment> \<open>an entry of the dictionary, for the examples\<close>
  "contact n ps b =
     (n, \<lparr>name = MkName n, phones = map MkPhone ps, birthday = map_option MkBirthday b\<rparr>)"

section \<open>Facts about strings\<close>

lemma cp_eq_iff [simp]: "cp a = cp b \<longleftrightarrow> a = b"
  by (simp add: cp_def)

lemma py_eq_iff [simp]: "py a = py b \<longleftrightarrow> a = b"
  by (simp add: py_def inj_map_eq_map inj_def)

lemma py_length [simp]: "length (py s) = length s"
  by (simp add: py_def)

lemma py_Nil [simp]: "py s = [] \<longleftrightarrow> s = []"
  by (simp add: py_def)

lemma is_ascii_digit_iff: "is_ascii_digit c \<longleftrightarrow> 48 \<le> c \<and> c \<le> 57"
  by (simp add: is_ascii_digit_def in_range_def cp_def)

lemma ascii_digit_decimal: "is_ascii_digit c \<Longrightarrow> isdecimal_char c"
  by (simp add: is_ascii_digit_iff isdecimal_char_def in_ranges_def decimal_ranges_def)

lemma ascii_digit_isdigit: "is_ascii_digit c \<Longrightarrow> isdigit_char c"
  by (simp add: isdigit_char_def ascii_digit_decimal)

lemma ascii_digit_val: "is_ascii_digit c \<Longrightarrow> decimal_val c = c - 48"
  by (auto simp: is_ascii_digit_iff decimal_val_def decimal_ranges_def)

section \<open>Facts about the dictionary\<close>

lemma dict_get_dict_set:
  "dict_get k (dict_set n r kvs) = (if k = n then Some r else dict_get k kvs)"
  by (induction kvs) auto

lemma dict_get_None_iff: "dict_get k kvs = None \<longleftrightarrow> k \<notin> fst ` set kvs"
  by (induction kvs) (auto split: if_splits)

lemma dict_get_Some_mem: "dict_get k kvs = Some r \<Longrightarrow> (k, r) \<in> set kvs"
  by (induction kvs) (auto split: if_splits)

lemma dict_get_distinct: "distinct (map fst kvs) \<Longrightarrow> (k, r) \<in> set kvs \<Longrightarrow> dict_get k kvs = Some r"
  by (induction kvs) (auto simp: image_iff)

lemma dict_set_absent: "dict_get k kvs = None \<Longrightarrow> dict_set k r kvs = kvs @ [(k, r)]"
  by (induction kvs) (auto split: if_splits)

lemma keys_dict_set:
  "map fst (dict_set k r kvs) = (if k \<in> fst ` set kvs then map fst kvs else map fst kvs @ [k])"
  by (induction kvs) (auto split: if_splits)

lemma dict_set_distinct:
  "distinct (map fst kvs) \<Longrightarrow> (k, r') \<in> set (dict_set k r kvs) \<Longrightarrow> r' = r"
proof (induction kvs)
  case Nil
  then show ?case by simp
next
  case (Cons kv kvs)
  then show ?case
    by (cases kv) (force split: if_splits)
qed

lemma dict_get_mutated:
  "dict_get k (map (\<lambda>(k', r'). if k' = n then (k', r) else (k', r')) kvs) =
     (if k = n then (case dict_get k kvs of None \<Rightarrow> None | Some _ \<Rightarrow> Some r) else dict_get k kvs)"
  by (induction kvs) auto

lemma keys_mutate: "map fst (records (mutate n r book)) = map fst (records book)"
proof -
  have "map (fst \<circ> (\<lambda>(k', r'). if k' = n then (k', r) else (k', r'))) kvs = map fst kvs" for kvs
    by (induction kvs) auto
  then show ?thesis
    by (simp add: mutate_def)
qed

lemma mutate_absent:
  "dict_get n kvs = None \<Longrightarrow> map (\<lambda>(k', r'). if k' = n then (k', r) else (k', r')) kvs = kvs"
  by (induction kvs) (auto split: if_splits)

lemma first_with_value_None:
  "first_with_value old ps = None \<longleftrightarrow> old \<notin> Phone_value ` set ps"
  by (induction ps) auto

lemma first_with_value_Some:
  "old \<in> Phone_value ` set ps \<Longrightarrow> first_with_value old ps = Some (MkPhone old)"
  by (induction ps) (auto simp: Phone.expand)

subsection \<open>The book stays keyed by name\<close>

lemma keyed_init: "keyed_by_name AddressBook_init"
  by (simp add: keyed_by_name_def AddressBook_init_def)

lemma keyed_dict_set:
  assumes "distinct (map fst kvs)" "list_all (\<lambda>(k, r). Name_value (name r) = k) kvs"
  shows "distinct (map fst (dict_set (Name_value (name r)) r kvs)) \<and>
         list_all (\<lambda>(k, r). Name_value (name r) = k) (dict_set (Name_value (name r)) r kvs)"
  using assms by (induction kvs) (auto simp: keys_dict_set image_iff)

lemma keyed_add_record: "keyed_by_name book \<Longrightarrow> keyed_by_name (AddressBook_add_record r book)"
  using keyed_dict_set[of "records book" r]
  by (simp add: keyed_by_name_def AddressBook_add_record_def)

lemma keyed_mutate:
  assumes "keyed_by_name book" "Name_value (name r) = n"
  shows "keyed_by_name (mutate n r book)"
proof -
  have "list_all (\<lambda>(k, r). Name_value (name r) = k) kvs \<Longrightarrow>
        list_all (\<lambda>(k, r). Name_value (name r) = k)
          (map (\<lambda>(k', r'). if k' = n then (k', r) else (k', r')) kvs)" for kvs
    using assms(2) by (induction kvs) (auto split: if_splits)
  then show ?thesis
    using assms(1) by (simp add: keyed_by_name_def keys_mutate) (simp add: mutate_def)
qed

lemma keyed_find:
  "keyed_by_name book \<Longrightarrow> AddressBook_find n book = Some r \<Longrightarrow> Name_value (name r) = n"
  by (auto simp: keyed_by_name_def AddressBook_find_def list_all_iff dest!: dict_get_Some_mem)

lemma Record_add_phone_name: "name (snd (Record_add_phone p r)) = name r"
  by (simp add: Record_add_phone_def split: sum.split)

lemma Record_add_birthday_name: "name (snd (Record_add_birthday b r)) = name r"
  by (simp add: Record_add_birthday_def split: sum.split)

lemma keyed_add_contact: "keyed_by_name book \<Longrightarrow> keyed_by_name (snd (add_contact args book))"
proof -
  assume k: "keyed_by_name book"
  have new: "keyed_by_name (mutate n (snd (Record_add_phone p (Record_init n)))
               (AddressBook_add_record (Record_init n) book))" for n p
    by (rule keyed_mutate[OF keyed_add_record[OF k]])
       (simp add: Record_add_phone_name Record_init_def Name_init_def)
  have old: "AddressBook_find n book = Some r \<Longrightarrow>
      keyed_by_name (mutate n (snd (Record_add_phone p r)) book)" for n p r
    by (rule keyed_mutate[OF k]) (simp add: Record_add_phone_name keyed_find[OF k])
  show ?thesis
  proof (cases args)
    case Nil
    then show ?thesis using k by (simp add: add_contact_def add_contact_body_def input_error_def)
  next
    case (Cons n rest)
    show ?thesis
    proof (cases rest)
      case Nil
      then show ?thesis
        using k Cons by (simp add: add_contact_def add_contact_body_def input_error_def)
    next
      case (Cons p extra)
      show ?thesis
      proof (cases "AddressBook_find n book")
        case None
        then show ?thesis
          using new[of n p] keyed_add_record[OF k, of "Record_init n"] \<open>args = n # rest\<close> Cons
          by (cases "Record_add_phone p (Record_init n)")
             (auto simp: add_contact_def add_contact_body_def input_error_def split: sum.split)
      next
        case (Some r)
        then show ?thesis
          using old[OF Some, of p] k \<open>args = n # rest\<close> Cons
          by (cases "Record_add_phone p r")
             (auto simp: add_contact_def add_contact_body_def input_error_def split: sum.split)
      qed
    qed
  qed
qed

lemma keyed_change_phone: "keyed_by_name book \<Longrightarrow> keyed_by_name (snd (change_phone args book))"
proof -
  assume k: "keyed_by_name book"
  have upd: "AddressBook_find n book = Some r \<Longrightarrow>
      keyed_by_name (mutate n (snd (Record_add_phone p (r\<lparr>phones := ps\<rparr>))) book)" for n p r ps
    by (rule keyed_mutate[OF k]) (simp add: Record_add_phone_name keyed_find[OF k])
  show ?thesis
  proof (cases "\<exists>n old new. args = [n, old, new]")
    case True
    then obtain n old new where a: "args = [n, old, new]" by blast
    show ?thesis
    proof (cases "AddressBook_find n book")
      case None
      then show ?thesis
        using k a by (simp add: change_phone_def change_phone_body_def input_error_def)
    next
      case (Some r)
      show ?thesis
      proof (cases "first_with_value old (phones r)")
        case None
        then show ?thesis
          using k a Some by (simp add: change_phone_def change_phone_body_def input_error_def)
      next
        case (Some ph)
        then show ?thesis
          using upd[OF \<open>AddressBook_find n book = Some r\<close>, of new "remove1 ph (phones r)"]
            a \<open>AddressBook_find n book = Some r\<close>
          by (cases "Record_add_phone new (r\<lparr>phones := remove1 ph (phones r)\<rparr>)")
             (auto simp: change_phone_def change_phone_body_def input_error_def split: sum.split)
      qed
    qed
  next
    case False
    then have "change_phone_body args book =
        (if length args < 3
         then (Inl (ValueError ((py ''not enough values to unpack (expected 3, got '') @
                      [digit_char (int (length args))] @ (py '')''))), book)
         else (Inl (ValueError (py ''too many values to unpack (expected 3)'')), book))"
      by (auto simp: change_phone_body_def split: list.split)
    then show ?thesis
      using k by (simp add: change_phone_def input_error_def)
  qed
qed

lemma keyed_add_birthday: "keyed_by_name book \<Longrightarrow> keyed_by_name (snd (add_birthday args book))"
proof -
  assume k: "keyed_by_name book"
  have upd: "AddressBook_find n book = Some r \<Longrightarrow>
      keyed_by_name (mutate n (snd (Record_add_birthday b r)) book)" for n b r
    by (rule keyed_mutate[OF k]) (simp add: Record_add_birthday_name keyed_find[OF k])
  show ?thesis
  proof (cases "\<exists>n b. args = [n, b]")
    case True
    then obtain n b where a: "args = [n, b]" by blast
    show ?thesis
    proof (cases "AddressBook_find n book")
      case None
      then show ?thesis
        using k a by (simp add: add_birthday_def add_birthday_body_def input_error_def)
    next
      case (Some r)
      then show ?thesis
        using upd[OF Some, of b] a
        by (cases "Record_add_birthday b r")
           (auto simp: add_birthday_def add_birthday_body_def input_error_def split: sum.split)
    qed
  next
    case False
    then have "add_birthday_body args book =
        (if length args < 2
         then (Inl (ValueError ((py ''not enough values to unpack (expected 2, got '') @
                      [digit_char (int (length args))] @ (py '')''))), book)
         else (Inl (ValueError (py ''too many values to unpack (expected 2)'')), book))"
      by (auto simp: add_birthday_body_def split: list.split)
    then show ?thesis
      using k by (simp add: add_birthday_def input_error_def)
  qed
qed

lemma keyed_unique:
  assumes "keyed_by_name book" "(k, r) \<in> set (records book)" "(k', r') \<in> set (records book)"
    and "Name_value (name r') = Name_value (name r)"
  shows "r' = r"
proof -
  have "Name_value (name r) = k" "Name_value (name r') = k'"
    using assms(1-3) by (auto simp: keyed_by_name_def list_all_iff)
  then have "k' = k"
    using assms(4) by simp
  then show ?thesis
    using assms(1-3) by (auto simp: keyed_by_name_def dest: eq_key_imp_eq_value)
qed

section \<open>Facts about dates\<close>

lemma split_digit:
  fixes c q r :: int
  assumes "0 \<le> r" "r < c"
  shows "(c * q + r) div c = q" "(c * q + r) mod c = r"
  using assms by (simp_all add: div_pos_pos_trivial)

lemma replace_year_valid: "replace_year b y = Inr d \<Longrightarrow> valid_datetime d"
  by (auto simp: replace_year_def datetime_new_def valid_datetime_def split: if_splits)

lemma replace_year_leap_day:
  "month b = 2 \<Longrightarrow> day b = 29 \<Longrightarrow> \<not> is_leap y \<Longrightarrow> \<exists>e. replace_year b y = Inl e"
  by (simp add: replace_year_def datetime_new_def days_in_month_def)

lemma time_of_day_range:
  "valid_datetime d \<Longrightarrow> 0 \<le> time_of_day d \<and> time_of_day d < 86400000000"
  by (simp add: valid_datetime_def time_of_day_def)

lemma days_sub:
  "days (datetime_sub a b) =
     ((toordinal a - toordinal b) * 86400000000 + (time_of_day a - time_of_day b)) div 86400000000"
  by (simp add: datetime_sub_def timedelta_new_def time_of_day_def Let_def algebra_simps)

lemma days_sub_past:
  assumes "valid_datetime a" "valid_datetime b" "toordinal a < toordinal b"
  shows "days (datetime_sub a b) < 0"
proof -
  have "(toordinal a - toordinal b) * 86400000000 + (time_of_day a - time_of_day b) < 0"
    using time_of_day_range[OF assms(1)] time_of_day_range[OF assms(2)] assms(3) by simp
  then show ?thesis
    by (simp add: days_sub pos_imp_zdiv_neg_iff)
qed

text \<open>
  The whole days between a birthday at midnight and the clock: the difference of the two
  dates, less one as soon as the clock is past midnight.
\<close>

lemma days_sub_midnight:
  assumes "time_of_day a = 0" "valid_datetime b"
  shows "days (datetime_sub a b) =
           toordinal a - toordinal b - (if time_of_day b = 0 then 0 else 1)"
proof (cases "time_of_day b = 0")
  case True
  then show ?thesis
    by (simp add: days_sub assms(1))
next
  case False
  let ?t = "time_of_day b"
  have r: "0 < ?t" "?t < 86400000000"
    using time_of_day_range[OF assms(2)] False by auto
  have "(toordinal a - toordinal b) * 86400000000 + (time_of_day a - ?t) =
        86400000000 * (toordinal a - toordinal b - 1) + (86400000000 - ?t)"
    by (simp add: assms(1) algebra_simps)
  then have "days (datetime_sub a b) =
      (86400000000 * (toordinal a - toordinal b - 1) + (86400000000 - ?t)) div 86400000000"
    by (simp only: days_sub)
  also have "\<dots> = toordinal a - toordinal b - 1"
    using r by (intro split_digit(1)) auto
  finally show ?thesis
    using False by simp
qed

subsection \<open>The loop of the query\<close>

lemma upcoming_loop_raises:
  assumes "(k, r) \<in> set kvs" "birthday r = Some b"
    and "replace_year (Birthday_value b) (year today) = Inl e"
  shows "\<exists>e'. upcoming_loop today kvs acc = Inl e'"
  using assms
proof (induction kvs arbitrary: acc)
  case Nil
  then show ?case by simp
next
  case (Cons kv kvs)
  obtain k' r' where kv: "kv = (k', r')" by (cases kv)
  show ?case
  proof (cases "(k, r) = kv")
    case True
    then show ?thesis
      using Cons.prems kv by auto
  next
    case False
    then have "(k, r) \<in> set kvs" using Cons.prems(1) by simp
    then have "\<And>acc. \<exists>e'. upcoming_loop today kvs acc = Inl e'"
      using Cons.IH Cons.prems(2,3) by blast
    then show ?thesis
      by (simp add: kv split: option.split sum.split)
  qed
qed

lemma upcoming_loop_sound:
  assumes "upcoming_loop today kvs acc = Inr names" "x \<in> set names"
  shows "x \<in> set acc \<or>
     (\<exists>k r b d. (k, r) \<in> set kvs \<and> birthday r = Some b \<and>
        replace_year (Birthday_value b) (year today) = Inr d \<and>
        0 \<le> days (datetime_sub d today) \<and> days (datetime_sub d today) < 7 \<and>
        x = Name_value (name r))"
  using assms
proof (induction kvs arbitrary: acc)
  case Nil
  then show ?case by simp
next
  case (Cons kv kvs)
  obtain k' r' where kv: "kv = (k', r')" by (cases kv)
  show ?case
  proof (cases "birthday r'")
    case None
    then have "upcoming_loop today kvs acc = Inr names"
      using Cons.prems(1) kv by simp
    from Cons.IH[OF this Cons.prems(2)] show ?thesis by auto
  next
    case (Some b)
    show ?thesis
    proof (cases "replace_year (Birthday_value b) (year today)")
      case (Inl e)
      then show ?thesis using Cons.prems(1) kv Some by simp
    next
      case (Inr d)
      show ?thesis
      proof (cases "0 \<le> days (datetime_sub d today) \<and> days (datetime_sub d today) < 7")
        case True
        then have "upcoming_loop today kvs (acc @ [Name_value (name r')]) = Inr names"
          using Cons.prems(1) kv Some Inr by simp
        from Cons.IH[OF this Cons.prems(2)] show ?thesis
          using kv Some Inr True by fastforce
      next
        case False
        then have "upcoming_loop today kvs acc = Inr names"
          using Cons.prems(1) kv Some Inr by auto
        from Cons.IH[OF this Cons.prems(2)] show ?thesis by auto
      qed
    qed
  qed
qed

lemma upcoming_loop_keeps: "upcoming_loop today kvs acc = Inr names \<Longrightarrow> set acc \<subseteq> set names"
proof (induction kvs arbitrary: acc)
  case Nil
  then show ?case by simp
next
  case (Cons kv kvs)
  obtain k' r' where kv: "kv = (k', r')" by (cases kv)
  from Cons.prems have "upcoming_loop today kvs acc = Inr names \<or>
      upcoming_loop today kvs (acc @ [Name_value (name r')]) = Inr names"
    by (auto simp: kv split: option.splits sum.splits if_splits)
  then show ?case
    using Cons.IH[of acc] Cons.IH[of "acc @ [Name_value (name r')]"] by auto
qed

lemma upcoming_loop_complete:
  assumes "upcoming_loop today kvs acc = Inr names"
    and "(k, r) \<in> set kvs" "birthday r = Some b"
    and "replace_year (Birthday_value b) (year today) = Inr d"
    and "0 \<le> days (datetime_sub d today)" "days (datetime_sub d today) < 7"
  shows "Name_value (name r) \<in> set names"
  using assms(1,2)
proof (induction kvs arbitrary: acc)
  case Nil
  then show ?case by simp
next
  case (Cons kv kvs)
  obtain k' r' where kv: "kv = (k', r')" by (cases kv)
  show ?case
  proof (cases "(k, r) = kv")
    case True
    then have "upcoming_loop today kvs (acc @ [Name_value (name r)]) = Inr names"
      using Cons.prems(1) kv assms(3-6) by simp
    from upcoming_loop_keeps[OF this] show ?thesis by simp
  next
    case False
    then have m: "(k, r) \<in> set kvs" using Cons.prems(2) by simp
    from Cons.prems(1) obtain acc' where "upcoming_loop today kvs acc' = Inr names"
      by (auto simp: kv split: option.splits sum.splits if_splits)
    from Cons.IH[OF this m] show ?thesis .
  qed
qed

text \<open>
  What the query answers, for a book keyed by name whose birthdays are stored at midnight
  (as \<open>strptime\<close> stores them): a name is listed exactly when the days from today's date to
  the birthday in the current year, less one if the clock is past midnight, are 0 to 6.
\<close>

lemma upcoming_window:
  assumes "keyed_by_name book" and "valid_datetime today"
    and "AddressBook_get_upcoming_birthdays today book = Inr names"
    and "(k, r) \<in> set (records book)" and "birthday r = Some b"
    and "time_of_day (Birthday_value b) = 0"
    and "replace_year (Birthday_value b) (year today) = Inr d"
  shows "Name_value (name r) \<in> set names \<longleftrightarrow>
           0 \<le> toordinal d - toordinal today - (if time_of_day today = 0 then 0 else 1) \<and>
           toordinal d - toordinal today - (if time_of_day today = 0 then 0 else 1) < 7"
proof -
  have run: "upcoming_loop today (records book) [] = Inr names"
    using assms(3) by (simp add: AddressBook_get_upcoming_birthdays_def)
  have "time_of_day d = time_of_day (Birthday_value b)"
    using assms(7) by (auto simp: replace_year_def datetime_new_def time_of_day_def split: if_splits)
  then have delta: "days (datetime_sub d today) =
      toordinal d - toordinal today - (if time_of_day today = 0 then 0 else 1)"
    using days_sub_midnight[of d today] assms(2,6) by simp
  show ?thesis
  proof
    assume "Name_value (name r) \<in> set names"
    from upcoming_loop_sound[OF run this]
    obtain k' r' b' d' where h: "(k', r') \<in> set (records book)" "birthday r' = Some b'"
      "replace_year (Birthday_value b') (year today) = Inr d'"
      "0 \<le> days (datetime_sub d' today)" "days (datetime_sub d' today) < 7"
      "Name_value (name r) = Name_value (name r')"
      by auto
    have "r' = r"
      using keyed_unique[OF assms(1,4) h(1)] h(6) by simp
    then have "d' = d" using h(2,3) assms(5,7) by simp
    then show "0 \<le> toordinal d - toordinal today - (if time_of_day today = 0 then 0 else 1) \<and>
           toordinal d - toordinal today - (if time_of_day today = 0 then 0 else 1) < 7"
      using h(4,5) delta by simp
  next
    assume "0 \<le> toordinal d - toordinal today - (if time_of_day today = 0 then 0 else 1) \<and>
           toordinal d - toordinal today - (if time_of_day today = 0 then 0 else 1) < 7"
    then have "0 \<le> days (datetime_sub d today)" "days (datetime_sub d today) < 7"
      using delta by simp_all
    from upcoming_loop_complete[OF run assms(4,5,7) this] show "Name_value (name r) \<in> set names" .
  qed
qed

section \<open>Facts about parsing and printing dates\<close>

lemma digit_char_val: "digit_char (c - 48) = c"
  by (simp add: digit_char_def cp_def)

lemma rx_Y_digits:
  assumes "is_ascii_digit y1" "is_ascii_digit y2" "is_ascii_digit y3" "is_ascii_digit y4"
  shows "rx_Y (y1 # y2 # y3 # y4 # rest) = [([y1, y2, y3, y4], rest)]"
  using assms[THEN ascii_digit_decimal] by (simp add: rx_Y_def)

lemma rx_dot_dot: "rx_dot (cp CHR ''.'' # r) = [([cp CHR ''.''], r)]"
  by (simp add: rx_dot_def is_char_def)

lemma rx_m_two:
  assumes "is_ascii_digit m1" "is_ascii_digit m2"
    and "1 \<le> 10 * (m1 - 48) + (m2 - 48)" and "10 * (m1 - 48) + (m2 - 48) \<le> 12"
  shows "concat (map (\<lambda>(m, r3). concat (map (\<lambda>(u, r4). G m r4) (rx_dot r3)))
           (rx_m (m1 # m2 # cp CHR ''.'' # rest))) = G [m1, m2] rest"
  using assms
  by (auto simp: rx_m_def rx_dot_def is_char_def in_range_def cp_def is_ascii_digit_iff)

lemma rx_d_two:
  assumes "is_ascii_digit d1" "is_ascii_digit d2"
    and "1 \<le> 10 * (d1 - 48) + (d2 - 48)" and "10 * (d1 - 48) + (d2 - 48) \<le> 31"
  shows "concat (map (\<lambda>(d, r1). concat (map (\<lambda>(u, r2). G d r2) (rx_dot r1)))
           (rx_d (d1 # d2 # cp CHR ''.'' # rest))) = G [d1, d2] rest"
  using assms ascii_digit_decimal[OF assms(2)]
  by (auto simp: rx_d_def rx_dot_def is_char_def in_range_def cp_def is_ascii_digit_iff)

lemma int_of_str2:
  "is_ascii_digit a \<Longrightarrow> is_ascii_digit b \<Longrightarrow> int_of_str [a, b] = 10 * (a - 48) + (b - 48)"
  by (auto simp: int_of_str_def is_char_def cp_def ascii_digit_val is_ascii_digit_iff)

lemma int_of_str4:
  "is_ascii_digit a \<Longrightarrow> is_ascii_digit b \<Longrightarrow> is_ascii_digit c \<Longrightarrow> is_ascii_digit d \<Longrightarrow>
   int_of_str [a, b, c, d] = 1000 * (a - 48) + 100 * (b - 48) + 10 * (c - 48) + (d - 48)"
  by (auto simp: int_of_str_def is_char_def cp_def ascii_digit_val is_ascii_digit_iff)

lemma pad2_digits:
  assumes "is_ascii_digit a" "is_ascii_digit b"
  shows "pad2 (10 * (a - 48) + (b - 48)) = [a, b]"
proof -
  define x where "x = a - 48"
  define y where "y = b - 48"
  have r: "0 \<le> x" "x \<le> 9" "0 \<le> y" "y < 10"
    using assms by (auto simp: x_def y_def is_ascii_digit_iff)
  have "(10 * x + y) div 10 = x" "(10 * x + y) mod 10 = y"
    using split_digit[of y 10 x] r by simp_all
  moreover have "x mod 10 = x"
    using r by simp
  ultimately have "pad2 (10 * x + y) = [digit_char x, digit_char y]"
    by (simp only: pad2_def)
  then show ?thesis
    by (simp only: x_def y_def digit_char_val)
qed

lemma decimal_str_step:
  assumes "1 \<le> q" "0 \<le> r" "r < 10"
  shows "decimal_str (10 * q + r) = decimal_str q @ [digit_char r]"
proof -
  have d: "(10 * q + r) div 10 = q" "(10 * q + r) mod 10 = r"
    using split_digit[of r 10 q] assms by simp_all
  have "\<not> 10 * q + r < 10"
    using assms by simp
  then show ?thesis
    by (subst decimal_str.simps) (simp only: d if_False)
qed

lemma decimal_str_four:
  assumes "1 \<le> x" "x \<le> 9" "0 \<le> y" "y \<le> 9" "0 \<le> z" "z \<le> 9" "0 \<le> w" "w \<le> 9"
  shows "decimal_str (1000 * x + 100 * y + 10 * z + w) =
           [digit_char x, digit_char y, digit_char z, digit_char w]"
proof -
  define n1 where "n1 = 10 * x + y"
  define n2 where "n2 = 10 * n1 + z"
  have s1: "decimal_str x = [digit_char x]"
    using assms by (subst decimal_str.simps) simp
  have s2: "decimal_str n1 = [digit_char x, digit_char y]"
    unfolding n1_def using decimal_str_step[of x y] assms s1 by simp
  have "1 \<le> n1" using assms by (simp add: n1_def)
  then have s3: "decimal_str n2 = [digit_char x, digit_char y, digit_char z]"
    unfolding n2_def using decimal_str_step[of n1 z] assms s2 by simp
  have "1 \<le> n2" using assms \<open>1 \<le> n1\<close> by (simp add: n2_def)
  then have s4: "decimal_str (10 * n2 + w) =
      [digit_char x, digit_char y, digit_char z, digit_char w]"
    using decimal_str_step[of n2 w] assms s3 by simp
  have "1000 * x + 100 * y + 10 * z + w = 10 * n2 + w"
    by (simp add: n2_def n1_def)
  then show ?thesis
    using s4 by (simp only:)
qed

lemma strptime_dd_mm_yyyy:
  assumes "is_ascii_digit d1" "is_ascii_digit d2" "is_ascii_digit m1" "is_ascii_digit m2"
    "is_ascii_digit y1" "is_ascii_digit y2" "is_ascii_digit y3" "is_ascii_digit y4"
    and "dd = 10 * (d1 - 48) + (d2 - 48)"
    and "mm = 10 * (m1 - 48) + (m2 - 48)"
    and "yy = 1000 * (y1 - 48) + 100 * (y2 - 48) + 10 * (y3 - 48) + (y4 - 48)"
    and "1 \<le> yy" "1 \<le> mm" "mm \<le> 12" "1 \<le> dd" "dd \<le> days_in_month yy mm"
  shows "strptime [d1, d2, cp CHR ''.'', m1, m2, cp CHR ''.'', y1, y2, y3, y4] =
           Inr (midnight yy mm dd)"
proof -
  have dim: "days_in_month yy mm \<le> 31"
    by (simp add: days_in_month_def)
  have d31: "dd \<le> 31" using assms(16) dim by linarith
  have y9: "yy \<le> 9999"
    using assms(5-8) by (simp add: assms(11) is_ascii_digit_iff)
  have m: "strptime_matches [d1, d2, cp CHR ''.'', m1, m2, cp CHR ''.'', y1, y2, y3, y4] =
      [(([d1, d2], [m1, m2], [y1, y2, y3, y4]), [])]"
    unfolding strptime_matches_def
    apply (subst rx_d_two)
    using assms(1,2,15) d31 apply (simp_all add: assms(9))[4]
    apply (subst rx_m_two)
    using assms(3,4,13,14) apply (simp_all add: assms(10))[4]
    apply (simp add: rx_dot_dot rx_Y_digits assms(5-8))
    done
  show ?thesis
    using assms(12-16) y9
    by (simp add: strptime_def m int_of_str2 int_of_str4 assms(1-11) datetime_new_def
        midnight_def)
qed

text \<open>
  A string DD.MM.YYYY of ASCII digits that denotes a date of the year 1000 or later is
  accepted and printed back as it is.
\<close>

lemma birthday_round_trip_from_1000:
  assumes "is_ascii_digit d1" "is_ascii_digit d2" "is_ascii_digit m1" "is_ascii_digit m2"
    "is_ascii_digit y1" "is_ascii_digit y2" "is_ascii_digit y3" "is_ascii_digit y4"
    and "s = [d1, d2, cp CHR ''.'', m1, m2, cp CHR ''.'', y1, y2, y3, y4]"
    and "dd = 10 * (d1 - 48) + (d2 - 48)"
    and "mm = 10 * (m1 - 48) + (m2 - 48)"
    and "yy = 1000 * (y1 - 48) + 100 * (y2 - 48) + 10 * (y3 - 48) + (y4 - 48)"
    and "1000 \<le> yy" "1 \<le> mm" "mm \<le> 12" "1 \<le> dd" "dd \<le> days_in_month yy mm"
  shows "Birthday_init s = Inr (MkBirthday (midnight yy mm dd)) \<and>
         Record_show_birthday (snd (Record_add_birthday s r)) = s"
proof -
  have y1: "1 \<le> yy" using assms(13) by simp
  have p: "strptime s = Inr (midnight yy mm dd)"
    unfolding assms(9)
    by (rule strptime_dd_mm_yyyy[OF assms(1-8) assms(10-12) y1 assms(14-17)])
  have lead: "1 \<le> y1 - 48"
    using assms(13) assms(5-8) by (simp add: assms(12) is_ascii_digit_iff)
  have yr: "decimal_str yy = [y1, y2, y3, y4]"
    unfolding assms(12)
    using decimal_str_four[of "y1 - 48" "y2 - 48" "y3 - 48" "y4 - 48"] lead assms(5-8)
    by (simp add: is_ascii_digit_iff digit_char_val)
  have f: "strftime (midnight yy mm dd) = s"
    using pad2_digits[OF assms(1,2)] pad2_digits[OF assms(3,4)] yr
    by (simp add: strftime_def midnight_def assms(9-11) py_def)
  have b: "Birthday_init s = Inr (MkBirthday (midnight yy mm dd))"
    by (simp add: Birthday_init_def p)
  show ?thesis
    by (simp add: b f Record_add_birthday_def Record_show_birthday_def)
qed

section \<open>The claims\<close>

subsection \<open>C1: the window of the birthday query\<close>

text \<open>
  C1 says that \<open>get_upcoming_birthdays\<close> lists a record exactly when the days from today's
  date to its birthday in the current year are 0 to 6, so that a birthday today is listed.
  The code subtracts the clock reading of \<open>datetime.today()\<close>, which carries the time of
  day. At 14:30 on 10 June 2024 Alice's birthday of 10 June (0 days ahead) is left out and
  Bob's of 17 June (7 days ahead) is listed.
\<close>

theorem birthday_today_not_listed:
  "Birthday_init (py ''10.06.1990'') = Inr (MkBirthday (midnight 1990 6 10)) \<and>
   Birthday_init (py ''17.06.1985'') = Inr (MkBirthday (midnight 1985 6 17)) \<and>
   toordinal (midnight 2024 6 10) -
     toordinal \<lparr>year = 2024, month = 6, day = 10, hour = 14, minute = 30, second = 0,
                microsecond = 0\<rparr> = 0 \<and>
   toordinal (midnight 2024 6 17) -
     toordinal \<lparr>year = 2024, month = 6, day = 10, hour = 14, minute = 30, second = 0,
                microsecond = 0\<rparr> = 7 \<and>
   AddressBook_get_upcoming_birthdays
     \<lparr>year = 2024, month = 6, day = 10, hour = 14, minute = 30, second = 0, microsecond = 0\<rparr>
     \<lparr>records = [contact (py ''Alice'') [] (Some (midnight 1990 6 10)),
                 contact (py ''Bob'') [] (Some (midnight 1985 6 17))]\<rparr> = Inr [(py ''Bob'')]"
  by code_simp

subsection \<open>C2: a birthday already past this year\<close>

text \<open>
  C2: a record whose birthday, moved to the current year, is a date before today's is not
  in the list the query returns; the birthday is not moved on to the next year. The book is
  keyed by name, as every book the program builds is.
\<close>

theorem past_birthday_excluded:
  assumes "keyed_by_name book" and "valid_datetime today"
    and "(k, r) \<in> set (records book)" and "birthday r = Some b"
    and "replace_year (Birthday_value b) (year today) = Inr d"
    and "toordinal d < toordinal today"
  shows "\<forall>names. AddressBook_get_upcoming_birthdays today book = Inr names \<longrightarrow>
           Name_value (name r) \<notin> set names"
proof (intro allI impI notI)
  fix names
  assume run: "AddressBook_get_upcoming_birthdays today book = Inr names"
    and mem: "Name_value (name r) \<in> set names"
  from upcoming_loop_sound[OF run[unfolded AddressBook_get_upcoming_birthdays_def] mem]
  obtain k' r' b' d' where h: "(k', r') \<in> set (records book)" "birthday r' = Some b'"
    "replace_year (Birthday_value b') (year today) = Inr d'"
    "0 \<le> days (datetime_sub d' today)" "Name_value (name r) = Name_value (name r')"
    by auto
  have "r' = r"
    using keyed_unique[OF assms(1,3) h(1)] h(5) by simp
  then have "d' = d" using h(2,3) assms(4,5) by simp
  moreover have "days (datetime_sub d today) < 0"
    using days_sub_past[OF replace_year_valid[OF assms(5)] assms(2,6)] .
  ultimately show False using h(4) by simp
qed

text \<open>
  On 30 December 2024, 10:00, Carol's birthday of 2 January is three days ahead across the
  year boundary and is not listed; Dave's of 31 December is.
\<close>

theorem past_birthday_excluded_witness:
  "keyed_by_name \<lparr>records = [contact (py ''Carol'') [] (Some (midnight 1990 1 2)),
                             contact (py ''Dave'') [] (Some (midnight 1980 12 31))]\<rparr> \<and>
   toordinal (midnight 2024 1 2) <
     toordinal \<lparr>year = 2024, month = 12, day = 30, hour = 10, minute = 0, second = 0,
                microsecond = 0\<rparr> \<and>
   AddressBook_get_upcoming_birthdays
     \<lparr>year = 2024, month = 12, day = 30, hour = 10, minute = 0, second = 0, microsecond = 0\<rparr>
     \<lparr>records = [contact (py ''Carol'') [] (Some (midnight 1990 1 2)),
                 contact (py ''Dave'') [] (Some (midnight 1980 12 31))]\<rparr> = Inr [(py ''Dave'')] \<and>
   (py ''Carol'') \<notin> set [(py ''Dave'')]"
proof -
  let ?today = "\<lparr>year = 2024, month = 12, day = 30, hour = 10, minute = 0, second = 0,
                  microsecond = 0\<rparr>"
  let ?book = "\<lparr>records = [contact (py ''Carol'') [] (Some (midnight 1990 1 2)),
                            contact (py ''Dave'') [] (Some (midnight 1980 12 31))]\<rparr>"
  let ?carol = "\<lparr>name = MkName (py ''Carol''), phones = [],
                  birthday = Some (MkBirthday (midnight 1990 1 2))\<rparr>"
  have h1: "keyed_by_name ?book" by code_simp
  have h2: "valid_datetime ?today" by code_simp
  have h3: "((py ''Carol''), ?carol) \<in> set (records ?book)" by (simp add: contact_def)
  have h4: "birthday ?carol = Some (MkBirthday (midnight 1990 1 2))" by simp
  have h5: "replace_year (Birthday_value (MkBirthday (midnight 1990 1 2))) (year ?today) =
              Inr (midnight 2024 1 2)" by code_simp
  have h6: "toordinal (midnight 2024 1 2) < toordinal ?today" by code_simp
  have run: "AddressBook_get_upcoming_birthdays ?today ?book = Inr [(py ''Dave'')]" by code_simp
  from past_birthday_excluded[OF h1 h2 h3 h4 h5 h6] run
  have "Name_value (name ?carol) \<notin> set [(py ''Dave'')]" by blast
  then show ?thesis
    using h1 h6 run by simp
qed

subsection \<open>C3: the \<open>add\<close> handler\<close>

text \<open>
  C3: called with a name and a phone (ten digits, so that \<open>Phone\<close> accepts it), the \<open>add\<close>
  handler appends the phone to the record found under the name and answers
  \<open>Contact updated.\<close>; when the name is new it adds a record with that one phone at the end
  of the book and answers \<open>Contact added.\<close> Arguments after the second are ignored.
\<close>

theorem add_contact_appends:
  assumes "isdigit phone" and "length phone = 10"
  shows "(AddressBook_find n book = Some r \<longrightarrow>
            fst (add_contact (n # phone # extra) book) = (py ''Contact updated.'') \<and>
            AddressBook_find n (snd (add_contact (n # phone # extra) book)) =
              Some (r\<lparr>phones := phones r @ [MkPhone phone]\<rparr>) \<and>
            records (snd (add_contact (n # phone # extra) book)) =
              map (\<lambda>(k, x). if k = n then (k, r\<lparr>phones := phones r @ [MkPhone phone]\<rparr>)
                             else (k, x)) (records book)) \<and>
         (AddressBook_find n book = None \<longrightarrow>
            fst (add_contact (n # phone # extra) book) = (py ''Contact added.'') \<and>
            AddressBook_find n (snd (add_contact (n # phone # extra) book)) =
              Some \<lparr>name = MkName n, phones = [MkPhone phone], birthday = None\<rparr> \<and>
            records (snd (add_contact (n # phone # extra) book)) =
              records book @ [(n, \<lparr>name = MkName n, phones = [MkPhone phone], birthday = None\<rparr>)])"
proof -
  have ok: "Phone_init phone = Inr (MkPhone phone)"
    using assms by (simp add: Phone_init_def)
  have ne: "phone \<noteq> []"
    using assms(2) by auto
  show ?thesis
  proof (intro conjI impI)
    assume f: "AddressBook_find n book = Some r"
    have run: "add_contact (n # phone # extra) book =
        ((py ''Contact updated.''), mutate n (r\<lparr>phones := phones r @ [MkPhone phone]\<rparr>) book)"
      using f ok ne
      by (simp add: add_contact_def add_contact_body_def input_error_def Record_add_phone_def)
    show "fst (add_contact (n # phone # extra) book) = (py ''Contact updated.'')"
      by (simp add: run)
    show "AddressBook_find n (snd (add_contact (n # phone # extra) book)) =
              Some (r\<lparr>phones := phones r @ [MkPhone phone]\<rparr>)"
      using f by (simp add: run mutate_def AddressBook_find_def dict_get_mutated)
    show "records (snd (add_contact (n # phone # extra) book)) =
              map (\<lambda>(k, x). if k = n then (k, r\<lparr>phones := phones r @ [MkPhone phone]\<rparr>)
                             else (k, x)) (records book)"
      by (simp add: run mutate_def)
  next
    assume f: "AddressBook_find n book = None"
    have run: "add_contact (n # phone # extra) book =
        ((py ''Contact added.''),
         mutate n ((Record_init n)\<lparr>phones := phones (Record_init n) @ [MkPhone phone]\<rparr>)
           (AddressBook_add_record (Record_init n) book))"
      using f ok ne
      by (simp add: add_contact_def add_contact_body_def input_error_def Record_add_phone_def)
    have recs: "records (snd (add_contact (n # phone # extra) book)) =
        records book @ [(n, \<lparr>name = MkName n, phones = [MkPhone phone], birthday = None\<rparr>)]"
      using f
      by (simp add: run mutate_def AddressBook_add_record_def Record_init_def Name_init_def
          AddressBook_find_def dict_set_absent mutate_absent)
    show "fst (add_contact (n # phone # extra) book) = (py ''Contact added.'')"
      by (simp add: run)
    show "records (snd (add_contact (n # phone # extra) book)) =
        records book @ [(n, \<lparr>name = MkName n, phones = [MkPhone phone], birthday = None\<rparr>)]"
      by (rule recs)
    show "AddressBook_find n (snd (add_contact (n # phone # extra) book)) =
              Some \<lparr>name = MkName n, phones = [MkPhone phone], birthday = None\<rparr>"
      using f
      by (simp add: run mutate_def AddressBook_add_record_def Record_init_def Name_init_def
          AddressBook_find_def dict_get_mutated dict_get_dict_set)
  qed
qed

theorem add_contact_appends_witness:
  "isdigit (py ''1112223334'') \<and> length (py ''1112223334'') = 10 \<and>
   AddressBook_find (py ''Bob'') \<lparr>records = [contact (py ''Bob'') [(py ''0123456789'')] None]\<rparr> =
     Some (snd (contact (py ''Bob'') [(py ''0123456789'')] None)) \<and>
   add_contact [(py ''Bob''), (py ''1112223334'')] \<lparr>records = [contact (py ''Bob'') [(py ''0123456789'')] None]\<rparr> =
     ((py ''Contact updated.''),
      \<lparr>records = [contact (py ''Bob'') [(py ''0123456789''), (py ''1112223334'')] None]\<rparr>) \<and>
   AddressBook_find (py ''Ann'') \<lparr>records = [contact (py ''Bob'') [(py ''0123456789'')] None]\<rparr> = None \<and>
   add_contact [(py ''Ann''), (py ''1112223334'')] \<lparr>records = [contact (py ''Bob'') [(py ''0123456789'')] None]\<rparr> =
     ((py ''Contact added.''),
      \<lparr>records = [contact (py ''Bob'') [(py ''0123456789'')] None, contact (py ''Ann'') [(py ''1112223334'')] None]\<rparr>)"
proof -
  let ?book = "\<lparr>records = [contact (py ''Bob'') [(py ''0123456789'')] None]\<rparr>"
  have h1: "isdigit (py ''1112223334'')" by code_simp
  have h2: "length (py ''1112223334'') = 10" by simp
  have f1: "AddressBook_find (py ''Bob'') ?book = Some (snd (contact (py ''Bob'') [(py ''0123456789'')] None))"
    by (simp add: AddressBook_find_def contact_def)
  have f2: "AddressBook_find (py ''Ann'') ?book = None"
    by (simp add: AddressBook_find_def contact_def)
  note t1 = add_contact_appends[OF h1 h2, of "(py ''Bob'')" ?book
      "snd (contact (py ''Bob'') [(py ''0123456789'')] None)" "[]"]
  note t2 = add_contact_appends[OF h1 h2, of "(py ''Ann'')" ?book
      "snd (contact (py ''Bob'') [(py ''0123456789'')] None)" "[]"]
  have u: "fst (add_contact [(py ''Bob''), (py ''1112223334'')] ?book) = (py ''Contact updated.'')"
    "records (snd (add_contact [(py ''Bob''), (py ''1112223334'')] ?book)) =
       [contact (py ''Bob'') [(py ''0123456789''), (py ''1112223334'')] None]"
    using t1 f1 by (simp_all add: contact_def)
  have a: "fst (add_contact [(py ''Ann''), (py ''1112223334'')] ?book) = (py ''Contact added.'')"
    "records (snd (add_contact [(py ''Ann''), (py ''1112223334'')] ?book)) =
       [contact (py ''Bob'') [(py ''0123456789'')] None, contact (py ''Ann'') [(py ''1112223334'')] None]"
    using t2 f2 by (simp_all add: contact_def)
  have "add_contact [(py ''Bob''), (py ''1112223334'')] ?book =
      ((py ''Contact updated.''), \<lparr>records = [contact (py ''Bob'') [(py ''0123456789''), (py ''1112223334'')] None]\<rparr>)"
    using u by (cases "add_contact [(py ''Bob''), (py ''1112223334'')] ?book") auto
  moreover have "add_contact [(py ''Ann''), (py ''1112223334'')] ?book =
      ((py ''Contact added.''),
       \<lparr>records = [contact (py ''Bob'') [(py ''0123456789'')] None, contact (py ''Ann'') [(py ''1112223334'')] None]\<rparr>)"
    using a by (cases "add_contact [(py ''Ann''), (py ''1112223334'')] ?book") auto
  ultimately show ?thesis
    using h1 h2 f1 f2 by simp
qed

subsection \<open>C4: what \<open>Phone\<close> accepts\<close>

text \<open>
  C4 says that \<open>Phone\<close> accepts exactly the strings of ten ASCII digits. The test of the
  code is \<open>str.isdigit\<close>, which holds for every digit character of Unicode: ten times the
  superscript two (U+00B2) is accepted, and so is ten times the Arabic-Indic zero (U+0660),
  and neither character is an ASCII digit.
\<close>

theorem Phone_init_superscript_counterexample:
  "Phone_init [0xB2, 0xB2, 0xB2, 0xB2, 0xB2, 0xB2, 0xB2, 0xB2, 0xB2, 0xB2] =
     Inr (MkPhone [0xB2, 0xB2, 0xB2, 0xB2, 0xB2, 0xB2, 0xB2, 0xB2, 0xB2, 0xB2]) \<and>
   \<not> is_ascii_digit 0xB2 \<and>
   Phone_init [0x660, 0x660, 0x660, 0x660, 0x660, 0x660, 0x660, 0x660, 0x660, 0x660] =
     Inr (MkPhone [0x660, 0x660, 0x660, 0x660, 0x660, 0x660, 0x660, 0x660, 0x660, 0x660]) \<and>
   \<not> is_ascii_digit 0x660"
  by code_simp

text \<open>
  C4 as amended: \<open>Phone\<close> accepts a string exactly when it has ten characters and each is a
  digit for \<open>str.isdigit\<close>, that is a character of Numeric_Type Decimal or Digit: an ASCII
  digit or another digit character of Unicode. It then stores the string as it is. Every
  other string is refused with the \<open>ValueError\<close> \<open>Phone number must be 10 digits.\<close> Ten
  ASCII digits are always accepted.
\<close>

theorem Phone_init_accepts:
  "Phone_init v =
     (if length v = 10 \<and> (\<forall>c \<in> set v. isdigit_char c)
      then Inr (MkPhone v)
      else Inl (ValueError (py ''Phone number must be 10 digits.''))) \<and>
   (length v = 10 \<and> list_all is_ascii_digit v \<longrightarrow> Phone_init v = Inr (MkPhone v))"
proof -
  have "isdigit v \<and> length v = 10 \<longleftrightarrow> length v = 10 \<and> (\<forall>c \<in> set v. isdigit_char c)"
    by (auto simp: isdigit_def list_all_iff)
  then have first: "Phone_init v =
     (if length v = 10 \<and> (\<forall>c \<in> set v. isdigit_char c)
      then Inr (MkPhone v)
      else Inl (ValueError (py ''Phone number must be 10 digits.'')))"
    by (auto simp: Phone_init_def)
  then show ?thesis
    by (auto simp: list_all_iff ascii_digit_isdigit)
qed

theorem Phone_init_accepts_witness:
  "Phone_init (py ''0123456789'') = Inr (MkPhone (py ''0123456789'')) \<and>
   Phone_init [0x660, 0x661, 0x662, 0x663, 0x664, 0x665, 0x666, 0x667, 0x668, 0x669] =
     Inr (MkPhone [0x660, 0x661, 0x662, 0x663, 0x664, 0x665, 0x666, 0x667, 0x668, 0x669]) \<and>
   Phone_init (py ''012345678'') = Inl (ValueError (py ''Phone number must be 10 digits.'')) \<and>
   Phone_init (py ''01234x6789'') = Inl (ValueError (py ''Phone number must be 10 digits.''))"
proof -
  let ?arabic = "[0x660, 0x661, 0x662, 0x663, 0x664, 0x665, 0x666, 0x667, 0x668, 0x669] :: pystr"
  have d: "list_all isdigit_char (py ''0123456789'')" by code_simp
  have a: "list_all isdigit_char ?arabic" by code_simp
  have x: "\<not> list_all isdigit_char (py ''01234x6789'')" by code_simp
  have "Phone_init (py ''0123456789'') = Inr (MkPhone (py ''0123456789''))"
    using Phone_init_accepts[of "py ''0123456789''"] d by (simp add: list_all_iff)
  moreover have "Phone_init ?arabic = Inr (MkPhone ?arabic)"
    using Phone_init_accepts[of ?arabic] a by (simp add: list_all_iff)
  moreover have "Phone_init (py ''012345678'') =
      Inl (ValueError (py ''Phone number must be 10 digits.''))"
    using Phone_init_accepts[of "py ''012345678''"] by simp
  moreover have "Phone_init (py ''01234x6789'') =
      Inl (ValueError (py ''Phone number must be 10 digits.''))"
    using Phone_init_accepts[of "py ''01234x6789''"] x by (simp add: list_all_iff)
  ultimately show ?thesis by simp
qed

subsection \<open>C5: a birthday read and printed\<close>

text \<open>
  C5 says that \<open>Birthday\<close> accepts every string of the form DD.MM.YYYY that denotes a date
  and that \<open>show_birthday\<close> then returns the string itself, as the docstring of
  \<open>show_birthday\<close> promises the form DD.MM.YYYY. The string \<open>01.01.0999\<close> is accepted as
  1 January 999, and \<open>show_birthday\<close> returns \<open>01.01.999\<close>: the year is printed without
  its leading zero.
\<close>

theorem birthday_year_999_printed_short:
  "Birthday_init (py ''01.01.0999'') = Inr (MkBirthday (midnight 999 1 1)) \<and>
   Record_add_birthday (py ''01.01.0999'') (Record_init (py ''Ann'')) =
     (Inr (), (Record_init (py ''Ann''))\<lparr>birthday := Some (MkBirthday (midnight 999 1 1))\<rparr>) \<and>
   Record_show_birthday (snd (Record_add_birthday (py ''01.01.0999'') (Record_init (py ''Ann'')))) =
     py ''01.01.999''"
  by code_simp

subsection \<open>C6: \<open>Record.add_birthday\<close>\<close>

text \<open>
  C6: when \<open>Birthday\<close> refuses the string, \<open>add_birthday\<close> raises the \<open>ValueError\<close>
  \<open>Invalid date format. Use DD.MM.YYYY\<close> and leaves the record, with the birthday it had
  or had not, as it was; when \<open>Birthday\<close> accepts the string, the new birthday takes the
  place of whatever was stored, and name and phones stay.
\<close>

theorem Record_add_birthday_effect:
  "(\<forall>e. Birthday_init s = Inl e \<longrightarrow>
        e = ValueError (py ''Invalid date format. Use DD.MM.YYYY'') \<and>
        Record_add_birthday s r = (Inl e, r)) \<and>
   (\<forall>b. Birthday_init s = Inr b \<longrightarrow>
        Record_add_birthday s r = (Inr (), r\<lparr>birthday := Some b\<rparr>) \<and>
        birthday (snd (Record_add_birthday s r)) = Some b \<and>
        name (snd (Record_add_birthday s r)) = name r \<and>
        phones (snd (Record_add_birthday s r)) = phones r)"
  by (auto simp: Record_add_birthday_def Birthday_init_def split: sum.splits)

theorem Record_add_birthday_effect_witness:
  "Birthday_init (py ''31.02.2024'') = Inl (ValueError (py ''Invalid date format. Use DD.MM.YYYY'')) \<and>
   Record_add_birthday (py ''31.02.2024'') (snd (contact (py ''Ann'') [] (Some (midnight 1990 6 10)))) =
     (Inl (ValueError (py ''Invalid date format. Use DD.MM.YYYY'')),
      snd (contact (py ''Ann'') [] (Some (midnight 1990 6 10)))) \<and>
   Birthday_init (py ''12.06.1991'') = Inr (MkBirthday (midnight 1991 6 12)) \<and>
   Record_add_birthday (py ''12.06.1991'') (snd (contact (py ''Ann'') [] (Some (midnight 1990 6 10)))) =
     (Inr (), snd (contact (py ''Ann'') [] (Some (midnight 1991 6 12))))"
proof -
  let ?r = "snd (contact (py ''Ann'') [] (Some (midnight 1990 6 10)))"
  have e1: "Birthday_init (py ''31.02.2024'') =
      Inl (ValueError (py ''Invalid date format. Use DD.MM.YYYY''))" by code_simp
  have e2: "Birthday_init (py ''12.06.1991'') = Inr (MkBirthday (midnight 1991 6 12))" by code_simp
  have "Record_add_birthday (py ''31.02.2024'') ?r =
      (Inl (ValueError (py ''Invalid date format. Use DD.MM.YYYY'')), ?r)"
    using Record_add_birthday_effect[of "(py ''31.02.2024'')" ?r] e1 by blast
  moreover have "Record_add_birthday (py ''12.06.1991'') ?r =
      (Inr (), ?r\<lparr>birthday := Some (MkBirthday (midnight 1991 6 12))\<rparr>)"
    using Record_add_birthday_effect[of "(py ''12.06.1991'')" ?r] e2 by blast
  ultimately show ?thesis
    using e1 e2 by (simp add: contact_def)
qed

subsection \<open>C7: \<open>add_record\<close> and \<open>find\<close>\<close>

text \<open>
  C7: \<open>add_record\<close> and \<open>find\<close> are total, so neither raises. After \<open>add_record\<close> the
  record is what \<open>find\<close> returns for its name, every other name is found as before, and
  the keys are the old ones, with the name appended if it was new; with one entry per key
  nothing of a record stored before under that name is left. \<open>find\<close> returns an entry
  whose key is the name asked for, and nothing exactly when no entry has that key.
\<close>

theorem add_record_find:
  "AddressBook_find (Name_value (name r)) (AddressBook_add_record r book) = Some r \<and>
   (\<forall>k. k \<noteq> Name_value (name r) \<longrightarrow>
        AddressBook_find k (AddressBook_add_record r book) = AddressBook_find k book) \<and>
   map fst (records (AddressBook_add_record r book)) =
     (if Name_value (name r) \<in> fst ` set (records book) then map fst (records book)
      else map fst (records book) @ [Name_value (name r)]) \<and>
   (distinct (map fst (records book)) \<longrightarrow>
      distinct (map fst (records (AddressBook_add_record r book))) \<and>
      (\<forall>r'. (Name_value (name r), r') \<in> set (records (AddressBook_add_record r book)) \<longrightarrow>
            r' = r)) \<and>
   (AddressBook_find n book = None \<longleftrightarrow> n \<notin> fst ` set (records book)) \<and>
   (\<forall>r'. AddressBook_find n book = Some r' \<longrightarrow> (n, r') \<in> set (records book)) \<and>
   (\<forall>r'. distinct (map fst (records book)) \<and> (n, r') \<in> set (records book) \<longrightarrow>
         AddressBook_find n book = Some r')"
proof (intro conjI allI impI)
  show keys: "map fst (records (AddressBook_add_record r book)) =
     (if Name_value (name r) \<in> fst ` set (records book) then map fst (records book)
      else map fst (records book) @ [Name_value (name r)])"
    by (simp add: AddressBook_add_record_def keys_dict_set)
  show "AddressBook_find (Name_value (name r)) (AddressBook_add_record r book) = Some r"
    by (simp add: AddressBook_find_def AddressBook_add_record_def dict_get_dict_set)
  show "AddressBook_find k (AddressBook_add_record r book) = AddressBook_find k book"
    if "k \<noteq> Name_value (name r)" for k
    using that by (simp add: AddressBook_find_def AddressBook_add_record_def dict_get_dict_set)
  show "distinct (map fst (records (AddressBook_add_record r book)))"
    if "distinct (map fst (records book))"
    using that by (auto simp: keys)
  show "r' = r"
    if "distinct (map fst (records book))"
      and "(Name_value (name r), r') \<in> set (records (AddressBook_add_record r book))" for r'
    using that by (simp add: AddressBook_add_record_def) (rule dict_set_distinct)
  show "AddressBook_find n book = None \<longleftrightarrow> n \<notin> fst ` set (records book)"
    by (simp add: AddressBook_find_def dict_get_None_iff)
  show "(n, r') \<in> set (records book)" if "AddressBook_find n book = Some r'" for r'
    using that by (simp add: AddressBook_find_def dict_get_Some_mem)
  show "AddressBook_find n book = Some r'"
    if "distinct (map fst (records book)) \<and> (n, r') \<in> set (records book)" for r'
    using that by (simp add: AddressBook_find_def dict_get_distinct)
qed

theorem add_record_find_witness:
  "AddressBook_find (py ''Bob'')
     (AddressBook_add_record (Record_init (py ''Bob''))
        \<lparr>records = [contact (py ''Bob'') [(py ''0123456789'')] (Some (midnight 1990 6 10)),
                    contact (py ''Ann'') [] None]\<rparr>) = Some (Record_init (py ''Bob'')) \<and>
   AddressBook_find (py ''Ann'')
     (AddressBook_add_record (Record_init (py ''Bob''))
        \<lparr>records = [contact (py ''Bob'') [(py ''0123456789'')] (Some (midnight 1990 6 10)),
                    contact (py ''Ann'') [] None]\<rparr>) = Some (snd (contact (py ''Ann'') [] None)) \<and>
   records (AddressBook_add_record (Record_init (py ''Bob''))
        \<lparr>records = [contact (py ''Bob'') [(py ''0123456789'')] (Some (midnight 1990 6 10)),
                    contact (py ''Ann'') [] None]\<rparr>) =
     [contact (py ''Bob'') [] None, contact (py ''Ann'') [] None] \<and>
   AddressBook_find (py ''Eve'')
     \<lparr>records = [contact (py ''Bob'') [(py ''0123456789'')] (Some (midnight 1990 6 10)),
                 contact (py ''Ann'') [] None]\<rparr> = None"
proof -
  let ?book = "\<lparr>records = [contact (py ''Bob'') [(py ''0123456789'')] (Some (midnight 1990 6 10)),
                            contact (py ''Ann'') [] None]\<rparr>"
  note t = add_record_find[of "Record_init (py ''Bob'')" ?book "(py ''Eve'')"]
  have nm: "Name_value (name (Record_init (py ''Bob''))) = (py ''Bob'')"
    by (simp add: Record_init_def Name_init_def)
  have a: "AddressBook_find (py ''Bob'') (AddressBook_add_record (Record_init (py ''Bob'')) ?book) =
      Some (Record_init (py ''Bob''))"
    using t[THEN conjunct1] by (simp only: nm)
  have "(py ''Ann'') \<noteq> Name_value (name (Record_init (py ''Bob'')))"
    by (simp add: nm)
  then have "AddressBook_find (py ''Ann'') (AddressBook_add_record (Record_init (py ''Bob'')) ?book) =
      AddressBook_find (py ''Ann'') ?book"
    using t[THEN conjunct2, THEN conjunct1] by blast
  then have b: "AddressBook_find (py ''Ann'') (AddressBook_add_record (Record_init (py ''Bob'')) ?book) =
      Some (snd (contact (py ''Ann'') [] None))"
    by (simp add: AddressBook_find_def contact_def)
  have c: "records (AddressBook_add_record (Record_init (py ''Bob'')) ?book) =
      [contact (py ''Bob'') [] None, contact (py ''Ann'') [] None]"
    by (simp add: AddressBook_add_record_def contact_def Record_init_def Name_init_def)
  have "(py ''Eve'') \<notin> fst ` set (records ?book)"
    by (simp add: contact_def)
  then have e: "AddressBook_find (py ''Eve'') ?book = None"
    using t[THEN conjunct2, THEN conjunct2, THEN conjunct2, THEN conjunct2, THEN conjunct1]
    by blast
  show ?thesis
    using a b c e by simp
qed

subsection \<open>C8: \<open>change\<close> with an old phone that is not there\<close>

text \<open>
  C8: for a contact that is in the book, the \<open>change\<close> handler called with an old phone
  that none of the contact's phones equals answers \<open>Old phone number not found.\<close> and
  leaves the whole book as it was.
\<close>

theorem change_phone_old_missing:
  assumes "AddressBook_find n book = Some r" and "old_phone \<notin> Phone_value ` set (phones r)"
  shows "change_phone [n, old_phone, new_phone] book = ((py ''Old phone number not found.''), book)"
proof -
  have "first_with_value old_phone (phones r) = None"
    using assms(2) by (simp add: first_with_value_None)
  then show ?thesis
    using assms(1) by (simp add: change_phone_def change_phone_body_def input_error_def)
qed

theorem change_phone_old_missing_witness:
  "AddressBook_find (py ''Bob'') \<lparr>records = [contact (py ''Bob'') [(py ''0123456789''), (py ''1112223334'')] None]\<rparr> =
     Some (snd (contact (py ''Bob'') [(py ''0123456789''), (py ''1112223334'')] None)) \<and>
   (py ''5556667778'') \<notin> Phone_value ` set (phones (snd (contact (py ''Bob'') [(py ''0123456789''), (py ''1112223334'')] None))) \<and>
   change_phone [(py ''Bob''), (py ''5556667778''), (py ''9998887776'')]
     \<lparr>records = [contact (py ''Bob'') [(py ''0123456789''), (py ''1112223334'')] None]\<rparr> =
     ((py ''Old phone number not found.''),
      \<lparr>records = [contact (py ''Bob'') [(py ''0123456789''), (py ''1112223334'')] None]\<rparr>)"
proof -
  let ?book = "\<lparr>records = [contact (py ''Bob'') [(py ''0123456789''), (py ''1112223334'')] None]\<rparr>"
  let ?r = "snd (contact (py ''Bob'') [(py ''0123456789''), (py ''1112223334'')] None)"
  have h1: "AddressBook_find (py ''Bob'') ?book = Some ?r"
    by (simp add: AddressBook_find_def contact_def)
  have h2: "(py ''5556667778'') \<notin> Phone_value ` set (phones ?r)"
    by (simp add: contact_def)
  from change_phone_old_missing[OF h1 h2, of "(py ''9998887776'')"] h1 h2
  show ?thesis by simp
qed

subsection \<open>C9: a birthday of 29 February in a common year\<close>

text \<open>
  C9: when a record of the book has a birthday on 29 February and the current year is not
  a leap year, \<open>get_upcoming_birthdays\<close> raises and returns no list, wherever the record
  stands in the book and whatever the other records are.
\<close>

theorem leap_day_raises:
  assumes "(k, r) \<in> set (records book)" and "birthday r = Some b"
    and "month (Birthday_value b) = 2" and "day (Birthday_value b) = 29"
    and "\<not> is_leap (year today)"
  shows "\<exists>e. AddressBook_get_upcoming_birthdays today book = Inl e"
proof -
  obtain e where "replace_year (Birthday_value b) (year today) = Inl e"
    using replace_year_leap_day[OF assms(3,4,5)] by blast
  from upcoming_loop_raises[OF assms(1,2) this] show ?thesis
    by (simp add: AddressBook_get_upcoming_birthdays_def)
qed

text \<open>
  On 27 February 2023 the book holds Ann, whose birthday is 1 March, before Leo, born on
  29 February 2000: the query raises and Ann is not reported.
\<close>

theorem leap_day_raises_witness:
  "Birthday_init (py ''29.02.2000'') = Inr (MkBirthday (midnight 2000 2 29)) \<and>
   \<not> is_leap 2023 \<and>
   AddressBook_get_upcoming_birthdays
     \<lparr>year = 2023, month = 2, day = 27, hour = 9, minute = 0, second = 0, microsecond = 0\<rparr>
     \<lparr>records = [contact (py ''Ann'') [] (Some (midnight 1990 3 1)),
                 contact (py ''Leo'') [] (Some (midnight 2000 2 29))]\<rparr> =
     Inl (ValueError (py ''day is out of range for month''))"
proof -
  let ?today = "\<lparr>year = 2023, month = 2, day = 27, hour = 9, minute = 0, second = 0,
                  microsecond = 0\<rparr>"
  let ?book = "\<lparr>records = [contact (py ''Ann'') [] (Some (midnight 1990 3 1)),
                            contact (py ''Leo'') [] (Some (midnight 2000 2 29))]\<rparr>"
  let ?leo = "\<lparr>name = MkName (py ''Leo''), phones = [],
                birthday = Some (MkBirthday (midnight 2000 2 29))\<rparr>"
  have p: "Birthday_init (py ''29.02.2000'') = Inr (MkBirthday (midnight 2000 2 29))" by code_simp
  have h1: "((py ''Leo''), ?leo) \<in> set (records ?book)" by (simp add: contact_def)
  have h2: "birthday ?leo = Some (MkBirthday (midnight 2000 2 29))" by simp
  have h3: "month (Birthday_value (MkBirthday (midnight 2000 2 29))) = 2"
    by (simp add: midnight_def)
  have h4: "day (Birthday_value (MkBirthday (midnight 2000 2 29))) = 29"
    by (simp add: midnight_def)
  have h5: "\<not> is_leap (year ?today)" by (simp add: is_leap_def)
  from leap_day_raises[OF h1 h2 h3 h4 h5]
  obtain e where e: "AddressBook_get_upcoming_birthdays ?today ?book = Inl e" by blast
  have "AddressBook_get_upcoming_birthdays ?today ?book =
      Inl (ValueError (py ''day is out of range for month''))" by code_simp
  then show ?thesis
    using p h5 e by simp
qed

subsection \<open>C10: \<open>change\<close> with a new phone that \<open>Phone\<close> refuses\<close>

text \<open>
  C10: for a contact of the book that has the old phone, the \<open>change\<close> handler called with
  a new phone that \<open>Phone\<close> refuses answers the message of the validation error, and the
  contact's phones are the old ones without the first occurrence of the old phone: one
  phone fewer, the new one not among them, every other record as before.
\<close>

theorem change_phone_not_atomic:
  assumes "AddressBook_find n book = Some r"
    and "old_phone \<in> Phone_value ` set (phones r)"
    and "\<not> (isdigit new_phone \<and> length new_phone = 10)"
  shows "fst (change_phone [n, old_phone, new_phone] book) = (py ''Phone number must be 10 digits.'') \<and>
         AddressBook_find n (snd (change_phone [n, old_phone, new_phone] book)) =
           Some (r\<lparr>phones := remove1 (MkPhone old_phone) (phones r)\<rparr>) \<and>
         length (remove1 (MkPhone old_phone) (phones r)) + 1 = length (phones r) \<and>
         records (snd (change_phone [n, old_phone, new_phone] book)) =
           map (\<lambda>(k, x). if k = n then (k, r\<lparr>phones := remove1 (MkPhone old_phone) (phones r)\<rparr>)
                          else (k, x)) (records book)"
proof -
  have hit: "first_with_value old_phone (phones r) = Some (MkPhone old_phone)"
    using assms(2) by (rule first_with_value_Some)
  have bad: "Phone_init new_phone = Inl (ValueError (py ''Phone number must be 10 digits.''))"
    using assms(3) by (auto simp: Phone_init_def)
  have mem: "MkPhone old_phone \<in> set (phones r)"
    using assms(2) by (metis Phone.collapse image_iff)
  have run: "change_phone [n, old_phone, new_phone] book =
      ((py ''Phone number must be 10 digits.''),
       mutate n (r\<lparr>phones := remove1 (MkPhone old_phone) (phones r)\<rparr>) book)"
    using assms(1) hit bad
    by (simp add: change_phone_def change_phone_body_def input_error_def Record_add_phone_def)
  have len: "length (remove1 (MkPhone old_phone) (phones r)) + 1 = length (phones r)"
    using mem by (simp add: length_remove1) (metis Suc_pred length_pos_if_in_set)
  show ?thesis
    using assms(1) len
    by (simp add: run mutate_def AddressBook_find_def dict_get_mutated)
qed

theorem change_phone_not_atomic_witness:
  "AddressBook_find (py ''Bob'') \<lparr>records = [contact (py ''Bob'') [(py ''0123456789''), (py ''1112223334'')] None]\<rparr> =
     Some (snd (contact (py ''Bob'') [(py ''0123456789''), (py ''1112223334'')] None)) \<and>
   \<not> (isdigit (py ''12345'') \<and> length (py ''12345'') = 10) \<and>
   change_phone [(py ''Bob''), (py ''0123456789''), (py ''12345'')]
     \<lparr>records = [contact (py ''Bob'') [(py ''0123456789''), (py ''1112223334'')] None]\<rparr> =
     ((py ''Phone number must be 10 digits.''),
      \<lparr>records = [contact (py ''Bob'') [(py ''1112223334'')] None]\<rparr>)"
proof -
  let ?book = "\<lparr>records = [contact (py ''Bob'') [(py ''0123456789''), (py ''1112223334'')] None]\<rparr>"
  let ?r = "snd (contact (py ''Bob'') [(py ''0123456789''), (py ''1112223334'')] None)"
  have h1: "AddressBook_find (py ''Bob'') ?book = Some ?r"
    by (simp add: AddressBook_find_def contact_def)
  have h2: "(py ''0123456789'') \<in> Phone_value ` set (phones ?r)"
    by (simp add: contact_def)
  have h3: "\<not> (isdigit (py ''12345'') \<and> length (py ''12345'') = 10)"
    by simp
  note t = change_phone_not_atomic[OF h1 h2 h3]
  have "fst (change_phone [(py ''Bob''), (py ''0123456789''), (py ''12345'')] ?book) =
      (py ''Phone number must be 10 digits.'')"
    using t by simp
  moreover have "records (snd (change_phone [(py ''Bob''), (py ''0123456789''), (py ''12345'')] ?book)) =
      [contact (py ''Bob'') [(py ''1112223334'')] None]"
    using t by (simp add: contact_def)
  ultimately have "change_phone [(py ''Bob''), (py ''0123456789''), (py ''12345'')] ?book =
      ((py ''Phone number must be 10 digits.''), \<lparr>records = [contact (py ''Bob'') [(py ''1112223334'')] None]\<rparr>)"
    by (cases "change_phone [(py ''Bob''), (py ''0123456789''), (py ''12345'')] ?book") auto
  then show ?thesis
    using h1 h3 by simp
qed

end
